theory Spec2Isabelle
  imports Main
begin

section \<open>Data model\<close>

text \<open>
  The store holds two tables. A row of \<open>friendships\<close> is a directed edge
  \<open>(id, userId, friendUserId, status)\<close>; a row of \<open>users\<close> carries the profile
  columns the routers read. Identifiers are the values the input schema has
  already let through, modelled as natural numbers. The column \<open>id\<close> is
  written \<open>rowId\<close> (friendships) and \<open>user_id\<close> (users), since \<open>id\<close> is
  the identity function of HOL.
\<close>

text \<open>
  Modelled from the spec: \<open>FriendshipStatusSchema\<close> is imported from
  \<open>utils/server/friendship-schemas\<close>, whose text is missing. The
  specification gives the vocabulary of the status, the three values the
  routers write and compare.
\<close>

datatype FriendshipStatus = requested | accepted | declined

record friendship =
  rowId :: nat
  userId :: nat
  friendUserId :: nat
  status :: FriendshipStatus

record user =
  user_id :: nat
  fullName :: string
  phoneNumber :: string

record Database =
  users :: "user list"
  friendships :: "friendship list"

text \<open>
  Errors are values: the two \<open>TRPCError\<close> codes the routers construct, and the
  error thrown by a failing schema \<open>parse\<close>.
\<close>

datatype error = BAD_REQUEST | NOT_FOUND | ZodError

record ack =
  success :: bool

section \<open>Query builder primitives\<close>

text \<open>
  \<open>executeTakeFirst\<close> yields the first row of a result set or \<open>undefined\<close>;
  \<open>executeTakeFirstOrThrow\<close> throws the given error on an empty result set.
\<close>

definition executeTakeFirst :: "'a list \<Rightarrow> 'a option" where
  "executeTakeFirst rows = (case rows of [] \<Rightarrow> None | r # _ \<Rightarrow> Some r)"

definition executeTakeFirstOrThrow :: "error \<Rightarrow> 'a list \<Rightarrow> error + 'a" where
  "executeTakeFirstOrThrow e rows = (case rows of [] \<Rightarrow> Inl e | r # _ \<Rightarrow> Inr r)"

text \<open>
  \<open>updateTable('friendships').set({status: s}).where(w)\<close> rewrites the status of
  every row that satisfies the filter and leaves every other row as it is.
\<close>

definition updateTable ::
  "(friendship \<Rightarrow> bool) \<Rightarrow> FriendshipStatus \<Rightarrow> friendship list \<Rightarrow> friendship list" where
  "updateTable w s rows = map (\<lambda>r. if w r then r\<lparr>status := s\<rparr> else r) rows"

text \<open>
  \<open>insertInto('friendships').values({userId, friendUserId, status})\<close> adds one
  row. The store generates the key of the new row; it is taken to be one above
  the largest key in the table.
\<close>

definition freshId :: "friendship list \<Rightarrow> nat" where
  "freshId rows = Suc (foldr max (map rowId rows) 0)"

definition insertInto ::
  "nat \<Rightarrow> nat \<Rightarrow> FriendshipStatus \<Rightarrow> friendship list \<Rightarrow> friendship list" where
  "insertInto u f s rows =
     rows @ [\<lparr>rowId = freshId rows, userId = u, friendUserId = f, status = s\<rparr>]"

section \<open>Friendship request router\<close>

text \<open>
  The guards run after \<open>authGuard\<close>, which supplies \<open>ctx.session.userId\<close>; the
  caller's id is therefore an argument of every operation. Both guards only
  read the store. Every statement is taken to complete: a failure of the
  store itself is outside the model.
\<close>

definition canSendFriendshipRequest :: "Database \<Rightarrow> nat \<Rightarrow> error + unit" where
  "canSendFriendshipRequest db fid =
     (case executeTakeFirstOrThrow BAD_REQUEST
             (take 1 (filter (\<lambda>u. user_id u = fid) (users db))) of
        Inl e \<Rightarrow> Inl e
      | Inr _ \<Rightarrow> Inr ())"

definition canAnswerFriendshipRequest :: "Database \<Rightarrow> nat \<Rightarrow> nat \<Rightarrow> error + unit" where
  "canAnswerFriendshipRequest db uid fid =
     (case executeTakeFirstOrThrow BAD_REQUEST
             (take 1 (filter (\<lambda>r. userId r = fid \<and> friendUserId r = uid
                                    \<and> status r = requested) (friendships db))) of
        Inl e \<Rightarrow> Inl e
      | Inr _ \<Rightarrow> Inr ())"

text \<open>The body of the \<open>send\<close> mutation: look the edge up, then update or insert.\<close>

definition send_mutation :: "Database \<Rightarrow> nat \<Rightarrow> nat \<Rightarrow> ack \<times> Database" where
  "send_mutation db uid fid =
     (let existingRequest =
            executeTakeFirst
              (filter (\<lambda>r. userId r = uid \<and> friendUserId r = fid) (friendships db))
      in case existingRequest of
           Some _ \<Rightarrow>
             (\<lparr>success = True\<rparr>,
              db\<lparr>friendships :=
                   updateTable (\<lambda>r. userId r = uid \<and> friendUserId r = fid) requested
                     (friendships db)\<rparr>)
         | None \<Rightarrow>
             (\<lparr>success = True\<rparr>,
              db\<lparr>friendships := insertInto uid fid requested (friendships db)\<rparr>))"

definition send :: "Database \<Rightarrow> nat \<Rightarrow> nat \<Rightarrow> (error + ack) \<times> Database" where
  "send db uid fid =
     (case canSendFriendshipRequest db fid of
        Inl e \<Rightarrow> (Inl e, db)
      | Inr _ \<Rightarrow> (case send_mutation db uid fid of (a, db') \<Rightarrow> (Inr a, db')))"

text \<open>
  The body of the transaction of \<open>accept\<close>. Here \<open>uid\<close> is the caller
  (\<open>ctx.session.userId\<close>) and \<open>fid\<close> is \<open>input.friendUserId\<close>, the user whose
  request is answered. The first statement filters on
  \<open>userId = uid\<close>, \<open>friendUserId = fid\<close>; the lookup that follows filters on
  \<open>userId = fid\<close>, \<open>friendUserId = uid\<close>, and the second update filters on the
  key of the row found.
\<close>

definition accept_firstUpdate :: "Database \<Rightarrow> nat \<Rightarrow> nat \<Rightarrow> friendship list" where
  "accept_firstUpdate db uid fid =
     updateTable (\<lambda>r. userId r = uid \<and> friendUserId r = fid) accepted (friendships db)"

definition accept_existingFriendship ::
  "Database \<Rightarrow> nat \<Rightarrow> nat \<Rightarrow> friendship option" where
  "accept_existingFriendship db uid fid =
     executeTakeFirst
       (filter (\<lambda>r. userId r = fid \<and> friendUserId r = uid) (accept_firstUpdate db uid fid))"

definition accept_transaction :: "Database \<Rightarrow> nat \<Rightarrow> nat \<Rightarrow> Database" where
  "accept_transaction db uid fid =
     (case accept_existingFriendship db uid fid of
        Some e \<Rightarrow>
          db\<lparr>friendships :=
               updateTable (\<lambda>r. rowId r = rowId e) accepted (accept_firstUpdate db uid fid)\<rparr>
      | None \<Rightarrow>
          db\<lparr>friendships := insertInto fid uid accepted (accept_firstUpdate db uid fid)\<rparr>)"

definition accept :: "Database \<Rightarrow> nat \<Rightarrow> nat \<Rightarrow> (error + unit) \<times> Database" where
  "accept db uid fid =
     (case canAnswerFriendshipRequest db uid fid of
        Inl e \<Rightarrow> (Inl e, db)
      | Inr _ \<Rightarrow> (Inr (), accept_transaction db uid fid))"

definition decline_mutation :: "Database \<Rightarrow> nat \<Rightarrow> nat \<Rightarrow> ack \<times> Database" where
  "decline_mutation db uid fid =
     (\<lparr>success = True\<rparr>,
      db\<lparr>friendships :=
           updateTable (\<lambda>r. userId r = fid \<and> friendUserId r = uid) declined
             (friendships db)\<rparr>)"

definition decline :: "Database \<Rightarrow> nat \<Rightarrow> nat \<Rightarrow> (error + ack) \<times> Database" where
  "decline db uid fid =
     (case canAnswerFriendshipRequest db uid fid of
        Inl e \<Rightarrow> (Inl e, db)
      | Inr _ \<Rightarrow> (case decline_mutation db uid fid of (a, db') \<Rightarrow> (Inr a, db')))"

section \<open>Friend profile router\<close>

text \<open>
  A result row of the driver is an object: a list of column names with their
  values. Reading a column the row does not have gives \<open>undefined\<close>, and a
  scalar subquery without a row gives \<open>null\<close>.
\<close>

datatype jsval = JUndefined | JNull | JNum nat | JStr string

type_synonym row = "(string \<times> jsval) list"

definition field :: "row \<Rightarrow> string \<Rightarrow> jsval" where
  "field r k = (case map_of r k of None \<Rightarrow> JUndefined | Some v \<Rightarrow> v)"

text \<open>
  Modelled from the spec: \<open>IdSchema\<close> is imported from
  \<open>utils/server/base-schemas\<close>, whose text is missing. The specification
  calls the identifier of a user opaque and every field of the result
  required: the schema accepts an identifier and rejects \<open>undefined\<close> and
  \<open>null\<close>.
\<close>

definition IdSchema :: "jsval \<Rightarrow> nat option" where
  "IdSchema v = (case v of JNum n \<Rightarrow> Some n | _ \<Rightarrow> None)"

text \<open>
  Modelled from the spec: \<open>NonEmptyStringSchema\<close> is imported from
  \<open>utils/server/base-schemas\<close>, whose text is missing. The specification
  calls the full name and the phone number non-empty strings.
\<close>

definition NonEmptyStringSchema :: "jsval \<Rightarrow> string option" where
  "NonEmptyStringSchema v =
     (case v of JStr s \<Rightarrow> (if s = [] then None else Some s) | _ \<Rightarrow> None)"

text \<open>
  Modelled from the spec: \<open>CountSchema\<close> is imported from
  \<open>utils/server/base-schemas\<close>, whose text is missing. The specification
  calls the two fields counts and every field of the result required, none
  missing or \<open>null\<close>: the schema accepts a count and rejects \<open>undefined\<close>
  and \<open>null\<close>.
\<close>

definition CountSchema :: "jsval \<Rightarrow> nat option" where
  "CountSchema v = (case v of JNum n \<Rightarrow> Some n | _ \<Rightarrow> None)"

record profile = user +
  totalFriendCount :: nat
  mutualFriendCount :: nat

text \<open>
  \<open>z.object({id, fullName, phoneNumber, totalFriendCount, mutualFriendCount}).parse\<close>:
  every key of the schema is read from the row and checked by its schema; one
  failing key makes the whole parse throw.
\<close>

definition parseProfile :: "row \<Rightarrow> error + profile" where
  "parseProfile r =
     (case IdSchema (field r ''id'') of None \<Rightarrow> Inl ZodError | Some i \<Rightarrow>
      case NonEmptyStringSchema (field r ''fullName'') of None \<Rightarrow> Inl ZodError | Some n \<Rightarrow>
      case NonEmptyStringSchema (field r ''phoneNumber'') of None \<Rightarrow> Inl ZodError | Some p \<Rightarrow>
      case CountSchema (field r ''totalFriendCount'') of None \<Rightarrow> Inl ZodError | Some t \<Rightarrow>
      case CountSchema (field r ''mutualFriendCount'') of None \<Rightarrow> Inl ZodError | Some m \<Rightarrow>
        Inr \<lparr>user_id = i, fullName = n, phoneNumber = p,
             totalFriendCount = t, mutualFriendCount = m\<rparr>)"

text \<open>
  An inner join is the list of the pairs of rows that satisfy the join
  condition; \<open>groupBy\<close> with \<open>count\<close> gives one row per key that occurs,
  holding the number of joined rows of that key.
\<close>

definition innerJoin :: "'a list \<Rightarrow> 'b list \<Rightarrow> ('a \<Rightarrow> 'b \<Rightarrow> bool) \<Rightarrow> ('a \<times> 'b) list" where
  "innerJoin xs ys on = filter (\<lambda>(x, y). on x y) (List.product xs ys)"

definition groupByCount :: "('a \<Rightarrow> nat) \<Rightarrow> 'a list \<Rightarrow> (nat \<times> nat) list" where
  "groupByCount key rows =
     map (\<lambda>k. (k, length (filter (\<lambda>r. key r = k) rows))) (remdups (map key rows))"

text \<open>
  The subquery of \<open>getById\<close>: \<open>friendships as f1\<close> joined with
  \<open>friendships as f2\<close> on \<open>friendUserId\<close> and filtered by the four
  \<open>where\<close> clauses (\<open>mutualJoin\<close>), then grouped by \<open>f1.userId\<close>; it
  selects the single column \<open>mutualFriendCount\<close> of each group.
\<close>

definition mutualJoin :: "Database \<Rightarrow> nat \<Rightarrow> nat \<Rightarrow> (friendship \<times> friendship) list" where
  "mutualJoin db uid fid =
     filter (\<lambda>(f1, f2). userId f1 = uid \<and> userId f2 = fid
                          \<and> status f1 = accepted \<and> status f2 = accepted)
       (innerJoin (friendships db) (friendships db)
          (\<lambda>f1 f2. friendUserId f1 = friendUserId f2))"

definition mutualFriendCountSubquery :: "Database \<Rightarrow> nat \<Rightarrow> nat \<Rightarrow> nat list" where
  "mutualFriendCountSubquery db uid fid =
     map snd (groupByCount (\<lambda>(f1, f2). userId f1) (mutualJoin db uid fid))"

text \<open>
  A subquery in the select list yields the column of its first row, and
  \<open>null\<close> when it has no row.
\<close>

definition scalarSubquery :: "nat list \<Rightarrow> jsval" where
  "scalarSubquery rows = (case rows of [] \<Rightarrow> JNull | n # _ \<Rightarrow> JNum n)"

definition getById_query :: "Database \<Rightarrow> nat \<Rightarrow> nat \<Rightarrow> error + row" where
  "getById_query db uid fid =
     executeTakeFirstOrThrow NOT_FOUND
       (map (\<lambda>(friends, f).
               [(''id'', JNum (user_id friends)),
                (''fullName'', JStr (fullName friends)),
                (''phoneNumber'', JStr (phoneNumber friends)),
                (''mutualFriendCount'',
                   scalarSubquery (mutualFriendCountSubquery db uid fid))])
          (filter (\<lambda>(friends, f). userId f = uid \<and> friendUserId f = fid
                                    \<and> status f = accepted)
             (innerJoin (users db) (friendships db)
                (\<lambda>friends f. friendUserId f = user_id friends))))"

definition getById :: "Database \<Rightarrow> nat \<Rightarrow> nat \<Rightarrow> error + profile" where
  "getById db uid fid =
     (case getById_query db uid fid of
        Inl e \<Rightarrow> Inl e
      | Inr r \<Rightarrow> parseProfile r)"

text \<open>
  The derived relation \<open>userTotalFriendCount\<close>: one row \<open>(userId, totalFriendCount)\<close>
  per user that has an accepted edge. The router declares it; \<open>getById\<close> does
  not refer to it.
\<close>

definition userTotalFriendCount :: "Database \<Rightarrow> (nat \<times> nat) list" where
  "userTotalFriendCount db =
     groupByCount userId (filter (\<lambda>r. status r = accepted) (friendships db))"

section \<open>Vocabulary of the properties\<close>

text \<open>
  \<open>rowsOf\<close> lists the rows of an ordered pair, \<open>hasEdge\<close> says that the pair
  has a row with the given status, and \<open>onePerPair\<close> is the invariant of the
  data model: no ordered pair has two rows.
\<close>

definition rowsOf :: "Database \<Rightarrow> nat \<Rightarrow> nat \<Rightarrow> friendship list" where
  "rowsOf db a b = filter (\<lambda>r. userId r = a \<and> friendUserId r = b) (friendships db)"

definition hasEdge :: "Database \<Rightarrow> nat \<Rightarrow> nat \<Rightarrow> FriendshipStatus \<Rightarrow> bool" where
  "hasEdge db a b s = list_ex (\<lambda>r. status r = s) (rowsOf db a b)"

definition userExists :: "Database \<Rightarrow> nat \<Rightarrow> bool" where
  "userExists db a = list_ex (\<lambda>u. user_id u = a) (users db)"

definition pairOf :: "friendship \<Rightarrow> nat \<times> nat" where
  "pairOf r = (userId r, friendUserId r)"

definition onePerPair :: "Database \<Rightarrow> bool" where
  "onePerPair db = distinct (map pairOf (friendships db))"

text \<open>
  What identifies a row and its pair; an update never touches it.
\<close>

definition rowKey :: "friendship \<Rightarrow> nat \<times> nat \<times> nat" where
  "rowKey r = (rowId r, userId r, friendUserId r)"

text \<open>
  The mutual friends of two users, as the specification defines them: the
  distinct \<open>friendUserId\<close> values \<open>F\<close> for which both users have an accepted
  edge to \<open>F\<close>.
\<close>

definition mutualFriends :: "Database \<Rightarrow> nat \<Rightarrow> nat \<Rightarrow> nat list" where
  "mutualFriends db a b =
     remdups (filter (\<lambda>F. hasEdge db a F accepted \<and> hasEdge db b F accepted)
                (map friendUserId (friendships db)))"

section \<open>Example stores\<close>

definition ann :: user where
  "ann = \<lparr>user_id = 1, fullName = ''Ann'', phoneNumber = ''555-0101''\<rparr>"

definition bob :: user where
  "bob = \<lparr>user_id = 2, fullName = ''Bob'', phoneNumber = ''555-0102''\<rparr>"

definition edge :: "nat \<Rightarrow> nat \<Rightarrow> nat \<Rightarrow> FriendshipStatus \<Rightarrow> friendship" where
  "edge i a b s = \<lparr>rowId = i, userId = a, friendUserId = b, status = s\<rparr>"

text \<open>Ann and Bob, and no edge yet.\<close>

definition twoUsers :: Database where
  "twoUsers = \<lparr>users = [ann, bob], friendships = []\<rparr>"

text \<open>Ann has asked Bob; an older request of Bob to Ann was declined.\<close>

definition pendingStore :: Database where
  "pendingStore =
     \<lparr>users = [ann, bob],
      friendships = [edge 1 1 2 requested, edge 2 2 1 declined]\<rparr>"

text \<open>Ann asked Bob earlier, and Bob declined.\<close>

definition declinedStore :: Database where
  "declinedStore = \<lparr>users = [ann, bob], friendships = [edge 1 1 2 declined]\<rparr>"

definition cat :: user where
  "cat = \<lparr>user_id = 3, fullName = ''Cat'', phoneNumber = ''555-0103''\<rparr>"

definition dan :: user where
  "dan = \<lparr>user_id = 4, fullName = ''Dan'', phoneNumber = ''555-0104''\<rparr>"

definition eve :: user where
  "eve = \<lparr>user_id = 5, fullName = ''Eve'', phoneNumber = ''555-0105''\<rparr>"

definition fay :: user where
  "fay = \<lparr>user_id = 6, fullName = ''Fay'', phoneNumber = ''555-0106''\<rparr>"

text \<open>Ann and Bob are accepted friends of each other and have no other friend.\<close>

definition friendsStore :: Database where
  "friendsStore =
     \<lparr>users = [ann, bob],
      friendships = [edge 1 1 2 accepted, edge 2 2 1 accepted]\<rparr>"

text \<open>
  Ann (1) is an accepted friend of Cat, Dan and Eve (3, 4, 5), Bob (2) of Dan,
  Eve and Fay (4, 5, 6), and Ann and Bob of each other; every edge has its
  reciprocal.
\<close>

definition mutualStore :: Database where
  "mutualStore =
     \<lparr>users = [ann, bob, cat, dan, eve, fay],
      friendships =
        [edge 1 1 3 accepted, edge 2 3 1 accepted,
         edge 3 1 4 accepted, edge 4 4 1 accepted,
         edge 5 1 5 accepted, edge 6 5 1 accepted,
         edge 7 2 4 accepted, edge 8 4 2 accepted,
         edge 9 2 5 accepted, edge 10 5 2 accepted,
         edge 11 2 6 accepted, edge 12 6 2 accepted,
         edge 13 1 2 accepted, edge 14 2 1 accepted]\<rparr>"

section \<open>Helper lemmas\<close>

subsection \<open>Updates, inserts and the guards\<close>

lemma updateTable_pairs: "map pairOf (updateTable w s rows) = map pairOf rows"
  by (simp add: updateTable_def pairOf_def)

lemma canSend_unknown:
  "\<not> userExists db fid \<Longrightarrow> canSendFriendshipRequest db fid = Inl BAD_REQUEST"
  by (simp add: canSendFriendshipRequest_def executeTakeFirstOrThrow_def userExists_def
      list_ex_iff filter_empty_conv)

lemma executeTakeFirst_None: "executeTakeFirst xs = None \<longleftrightarrow> xs = []"
  by (simp add: executeTakeFirst_def split: list.splits)

lemma filter_pair_updateTable_empty:
  "filter (\<lambda>r. userId r = a \<and> friendUserId r = b) (updateTable w s rows) = []
   \<longleftrightarrow> filter (\<lambda>r. userId r = a \<and> friendUserId r = b) rows = []"
  by (induction rows) (auto simp: updateTable_def)

lemma insertInto_pairs: "map pairOf (insertInto u f s rows) = map pairOf rows @ [(u, f)]"
  by (simp add: insertInto_def pairOf_def)

lemma canSend_known: "userExists db fid \<Longrightarrow> canSendFriendshipRequest db fid = Inr ()"
  by (auto simp: canSendFriendshipRequest_def executeTakeFirstOrThrow_def userExists_def
      list_ex_iff filter_empty_conv split: list.splits)

lemma hasEdge_iff:
  "hasEdge db a b s \<longleftrightarrow>
   filter (\<lambda>r. userId r = a \<and> friendUserId r = b \<and> status r = s) (friendships db) \<noteq> []"
  by (auto simp: hasEdge_def rowsOf_def list_ex_iff filter_empty_conv)

lemma canAnswer_pending:
  "hasEdge db fid uid requested \<Longrightarrow> canAnswerFriendshipRequest db uid fid = Inr ()"
  by (auto simp: canAnswerFriendshipRequest_def executeTakeFirstOrThrow_def hasEdge_iff
      split: list.splits)

lemma canAnswer_none:
  "\<not> hasEdge db fid uid requested \<Longrightarrow> canAnswerFriendshipRequest db uid fid = Inl BAD_REQUEST"
  by (simp add: canAnswerFriendshipRequest_def executeTakeFirstOrThrow_def hasEdge_iff)

subsection \<open>The pairs of the table under each operation\<close>

lemma send_mutation_pairs:
  "map pairOf (friendships (snd (send_mutation db uid fid))) =
     (if rowsOf db uid fid = [] then map pairOf (friendships db) @ [(uid, fid)]
      else map pairOf (friendships db))"
  by (auto simp: send_mutation_def rowsOf_def executeTakeFirst_def updateTable_pairs
      insertInto_pairs split: list.splits)

lemma send_pairs:
  "map pairOf (friendships (snd (send db uid fid))) =
     (if userExists db fid \<and> rowsOf db uid fid = [] then map pairOf (friendships db) @ [(uid, fid)]
      else map pairOf (friendships db))"
proof (cases "userExists db fid")
  case True
  then show ?thesis
    using send_mutation_pairs [of db uid fid]
    by (cases "send_mutation db uid fid") (simp add: send_def canSend_known)
next
  case False
  then show ?thesis by (simp add: send_def canSend_unknown)
qed

lemma accept_firstUpdate_pairs:
  "map pairOf (accept_firstUpdate db uid fid) = map pairOf (friendships db)"
  by (simp add: accept_firstUpdate_def updateTable_pairs)

lemma accept_existingFriendship_None:
  "accept_existingFriendship db uid fid = None \<longleftrightarrow> rowsOf db fid uid = []"
  by (simp add: accept_existingFriendship_def executeTakeFirst_None accept_firstUpdate_def
      filter_pair_updateTable_empty rowsOf_def)

lemma accept_transaction_pairs:
  "map pairOf (friendships (accept_transaction db uid fid)) =
     (if rowsOf db fid uid = [] then map pairOf (friendships db) @ [(fid, uid)]
      else map pairOf (friendships db))"
proof (cases "accept_existingFriendship db uid fid")
  case None
  then show ?thesis
    using accept_existingFriendship_None [of db uid fid]
    by (simp add: accept_transaction_def insertInto_pairs accept_firstUpdate_pairs)
next
  case (Some e)
  then show ?thesis
    using accept_existingFriendship_None [of db uid fid]
    by (simp add: accept_transaction_def updateTable_pairs accept_firstUpdate_pairs)
qed

lemma hasEdge_rowsOf: "hasEdge db a b s \<Longrightarrow> rowsOf db a b \<noteq> []"
  by (auto simp: hasEdge_def list_ex_iff)

lemma accept_pairs:
  "map pairOf (friendships (snd (accept db uid fid))) = map pairOf (friendships db)"
proof (cases "hasEdge db fid uid requested")
  case True
  then show ?thesis
    using accept_transaction_pairs [of db uid fid] hasEdge_rowsOf [of db fid uid requested]
    by (simp add: accept_def canAnswer_pending)
next
  case False
  then show ?thesis by (simp add: accept_def canAnswer_none)
qed

lemma decline_pairs:
  "map pairOf (friendships (snd (decline db uid fid))) = map pairOf (friendships db)"
  by (cases "hasEdge db fid uid requested")
    (simp_all add: decline_def decline_mutation_def canAnswer_pending canAnswer_none
      updateTable_pairs)

lemma rowsOf_empty_pairs: "rowsOf db a b = [] \<longleftrightarrow> (a, b) \<notin> set (map pairOf (friendships db))"
  by (auto simp: rowsOf_def filter_empty_conv pairOf_def image_iff)

lemma updateTable_keys: "map rowKey (updateTable w s rows) = map rowKey rows"
  by (simp add: updateTable_def rowKey_def)

lemma send_users: "users (snd (send db uid fid)) = users db"
  by (cases "userExists db fid")
    (simp_all add: send_def canSend_known canSend_unknown send_mutation_def
      split: option.splits)

lemma decline_users: "users (snd (decline db uid fid)) = users db"
  by (cases "hasEdge db fid uid requested")
    (simp_all add: decline_def decline_mutation_def canAnswer_pending canAnswer_none)

lemma send_length:
  "length (friendships (snd (send db uid fid))) =
     length (friendships db) + (if userExists db fid \<and> rowsOf db uid fid = [] then 1 else 0)"
  using arg_cong [OF send_pairs [of db uid fid], of length] by (simp split: if_splits)

lemma accept_length:
  "length (friendships (snd (accept db uid fid))) = length (friendships db)"
  using arg_cong [OF accept_pairs [of db uid fid], of length] by simp

lemma decline_length:
  "length (friendships (snd (decline db uid fid))) = length (friendships db)"
  using arg_cong [OF decline_pairs [of db uid fid], of length] by simp

lemma accept_transaction_keys:
  assumes "rowsOf db fid uid \<noteq> []"
  shows "map rowKey (friendships (accept_transaction db uid fid)) = map rowKey (friendships db)"
proof -
  from assms obtain e where "accept_existingFriendship db uid fid = Some e"
    using accept_existingFriendship_None [of db uid fid] by (cases "accept_existingFriendship db uid fid") auto
  then show ?thesis
    by (simp add: accept_transaction_def updateTable_keys accept_firstUpdate_def)
qed

lemma getById_query_rows_empty:
  "\<not> hasEdge db uid fid accepted \<Longrightarrow>
   filter (\<lambda>(friends, f). userId f = uid \<and> friendUserId f = fid \<and> status f = accepted)
     (innerJoin (users db) (friendships db) (\<lambda>friends f. friendUserId f = user_id friends)) = []"
  by (auto simp: hasEdge_iff filter_empty_conv innerJoin_def)

subsection \<open>The rows of one pair\<close>

lemma filter_pair_updateTable:
  "filter (\<lambda>r. userId r = a \<and> friendUserId r = b) (updateTable w s rows) =
   updateTable w s (filter (\<lambda>r. userId r = a \<and> friendUserId r = b) rows)"
  by (induction rows) (auto simp: updateTable_def)

lemma updateTable_same_filter:
  "updateTable w s (filter w rows) = map (\<lambda>r. r\<lparr>status := s\<rparr>) (filter w rows)"
  by (induction rows) (auto simp: updateTable_def)

lemma distinct_map_filter_le1:
  "distinct (map f xs) \<Longrightarrow> length (filter (\<lambda>x. f x = k) xs) \<le> 1"
proof (induction xs)
  case Nil
  then show ?case by simp
next
  case (Cons x xs)
  show ?case
  proof (cases "f x = k")
    case True
    from Cons.prems have "f x \<notin> f ` set xs" by simp
    with True have "\<forall>y\<in>set xs. f y \<noteq> k" by blast
    then have "filter (\<lambda>y. f y = k) xs = []"
      by (simp add: filter_empty_conv)
    with True show ?thesis by simp
  next
    case False
    with Cons show ?thesis by simp
  qed
qed

lemma rowsOf_pairOf: "rowsOf db a b = filter (\<lambda>r. pairOf r = (a, b)) (friendships db)"
  by (simp add: rowsOf_def pairOf_def)

lemma onePerPair_rowsOf: "onePerPair db \<Longrightarrow> length (rowsOf db a b) \<le> 1"
  unfolding onePerPair_def rowsOf_pairOf by (rule distinct_map_filter_le1)

lemma send_update_branch:
  assumes "userExists db fid" and "rowsOf db uid fid \<noteq> []"
  shows "send db uid fid =
           (Inr \<lparr>success = True\<rparr>,
            db\<lparr>friendships :=
                 updateTable (\<lambda>r. userId r = uid \<and> friendUserId r = fid) requested
                   (friendships db)\<rparr>)"
  using assms
  by (auto simp: send_def canSend_known send_mutation_def rowsOf_def executeTakeFirst_def
      split: list.splits)

lemma send_insert_branch:
  assumes "userExists db fid" and "rowsOf db uid fid = []"
  shows "send db uid fid =
           (Inr \<lparr>success = True\<rparr>,
            db\<lparr>friendships := insertInto uid fid requested (friendships db)\<rparr>)"
  using assms
  by (simp add: send_def canSend_known send_mutation_def rowsOf_def executeTakeFirst_def)

lemma decline_pending:
  assumes "hasEdge db fid uid requested"
  shows "decline db uid fid =
           (Inr \<lparr>success = True\<rparr>,
            db\<lparr>friendships :=
                 updateTable (\<lambda>r. userId r = fid \<and> friendUserId r = uid) declined
                   (friendships db)\<rparr>)"
  using assms by (simp add: decline_def decline_mutation_def canAnswer_pending)

lemma rowsOf_update_same:
  "rowsOf (db\<lparr>friendships := updateTable (\<lambda>r. userId r = a \<and> friendUserId r = b) s
                                (friendships db)\<rparr>) a b
   = map (\<lambda>r. r\<lparr>status := s\<rparr>) (rowsOf db a b)"
  by (simp add: rowsOf_def filter_pair_updateTable updateTable_same_filter)

lemma send_ok: "userExists db fid \<Longrightarrow> fst (send db uid fid) = Inr \<lparr>success = True\<rparr>"
  by (cases "rowsOf db uid fid = []") (simp_all add: send_update_branch send_insert_branch)

lemma send_rows_status:
  assumes "userExists db fid"
  shows "map status (rowsOf (snd (send db uid fid)) uid fid)
         = replicate (max 1 (length (rowsOf db uid fid))) requested"
proof (cases "rowsOf db uid fid = []")
  case True
  then have "filter (\<lambda>r. userId r = uid \<and> friendUserId r = fid) (friendships db) = []"
    by (simp add: rowsOf_def)
  with True assms show ?thesis
    by (simp add: send_insert_branch insertInto_def rowsOf_def)
next
  case False
  then have "max 1 (length (rowsOf db uid fid)) = length (rowsOf db uid fid)"
    by (cases "rowsOf db uid fid") simp_all
  with False assms show ?thesis
    by (simp add: send_update_branch rowsOf_update_same o_def map_replicate_const)
qed

lemma send_rows_ids:
  assumes "userExists db fid" and "rowsOf db uid fid \<noteq> []"
  shows "map rowId (rowsOf (snd (send db uid fid)) uid fid) = map rowId (rowsOf db uid fid)"
  using assms by (simp add: send_update_branch rowsOf_update_same o_def)

lemma send_requested:
  assumes "userExists db fid"
  shows "hasEdge (snd (send db uid fid)) uid fid requested"
proof -
  have "set (map status (rowsOf (snd (send db uid fid)) uid fid)) = {requested}"
    by (simp add: send_rows_status [OF assms])
  then have "requested \<in> status ` set (rowsOf (snd (send db uid fid)) uid fid)"
    by simp
  then show ?thesis by (force simp: hasEdge_def list_ex_iff)
qed

lemma send_onePerPair: "onePerPair db \<Longrightarrow> onePerPair (snd (send db uid fid))"
  using rowsOf_empty_pairs [of db uid fid] by (simp add: onePerPair_def send_pairs)

lemma decline_onePerPair: "onePerPair db \<Longrightarrow> onePerPair (snd (decline db uid fid))"
  by (simp add: onePerPair_def decline_pairs)

lemma userExists_users: "users db' = users db \<Longrightarrow> userExists db' a = userExists db a"
  by (simp add: userExists_def)

lemma send_existing_one:
  assumes "userExists db fid" and "onePerPair db" and "rowsOf db uid fid \<noteq> []"
  shows "map status (rowsOf (snd (send db uid fid)) uid fid) = [requested]"
proof -
  have "length (rowsOf db uid fid) = 1"
    using onePerPair_rowsOf [OF assms(2), of uid fid] assms(3)
    by (cases "rowsOf db uid fid") simp_all
  then show ?thesis by (simp add: send_rows_status [OF assms(1)])
qed

lemma updateTable_nth:
  "i < length rows \<Longrightarrow>
   updateTable w s rows ! i = (if w (rows ! i) then (rows ! i)\<lparr>status := s\<rparr> else rows ! i)"
  by (simp add: updateTable_def)

lemma filter_other_pair_updateTable:
  "(a, b) \<noteq> (c, d) \<Longrightarrow>
   filter (\<lambda>r. userId r = a \<and> friendUserId r = b)
     (updateTable (\<lambda>r. userId r = c \<and> friendUserId r = d) s rows)
   = filter (\<lambda>r. userId r = a \<and> friendUserId r = b) rows"
  by (induction rows) (auto simp: updateTable_def)

subsection \<open>The subquery of the mutual friends\<close>

text \<open>
  With one row per ordered pair, the subquery has no row when the two users
  have no mutual friend, and otherwise the single row that holds their number.
\<close>

lemma hasEdge_mem:
  "hasEdge db a b s \<longleftrightarrow> (\<exists>r \<in> set (friendships db). userId r = a \<and> friendUserId r = b \<and> status r = s)"
  by (auto simp: hasEdge_def rowsOf_def list_ex_iff)

lemma set_mutualFriends:
  "set (mutualFriends db a b) = {F. hasEdge db a F accepted \<and> hasEdge db b F accepted}"
  by (auto simp: mutualFriends_def hasEdge_mem)

lemma remdups_replicate_one: "remdups (replicate n x) = (if n = 0 then [] else [x])"
  by (induction n) auto

lemma groupByCount_one_key:
  assumes "\<forall>r \<in> set rows. key r = k"
  shows "groupByCount key rows = (if rows = [] then [] else [(k, length rows)])"
proof -
  have m: "map key rows = replicate (length rows) k"
    using assms by (simp add: map_replicate_const [symmetric] cong: map_cong)
  have f: "filter (\<lambda>r. key r = k) rows = rows"
    using assms by (simp add: filter_id_conv)
  show ?thesis
    by (simp add: groupByCount_def m remdups_replicate_one f)
qed

lemma mutualFriendCountSubquery_join:
  "mutualFriendCountSubquery db uid fid =
     (if mutualJoin db uid fid = [] then [] else [length (mutualJoin db uid fid)])"
proof -
  have "\<forall>r \<in> set (mutualJoin db uid fid). (\<lambda>(f1, f2). userId f1) r = uid"
    by (auto simp: mutualJoin_def)
  from groupByCount_one_key [OF this] show ?thesis
    by (simp add: mutualFriendCountSubquery_def)
qed

lemma onePerPair_inj: "onePerPair db \<Longrightarrow> inj_on pairOf (set (friendships db))"
  by (simp add: onePerPair_def distinct_map)

lemma onePerPair_distinct: "onePerPair db \<Longrightarrow> distinct (friendships db)"
  by (simp add: onePerPair_def distinct_map)

lemma mutualJoin_mem:
  "(f1, f2) \<in> set (mutualJoin db a b) \<longleftrightarrow>
     f1 \<in> set (friendships db) \<and> f2 \<in> set (friendships db)
     \<and> friendUserId f1 = friendUserId f2 \<and> userId f1 = a \<and> userId f2 = b
     \<and> status f1 = accepted \<and> status f2 = accepted"
  by (auto simp: mutualJoin_def innerJoin_def)

lemma mutualJoin_distinct: "onePerPair db \<Longrightarrow> distinct (mutualJoin db a b)"
  by (simp add: mutualJoin_def innerJoin_def distinct_product onePerPair_distinct)

lemma mutualJoin_inj:
  assumes "onePerPair db"
  shows "inj_on (\<lambda>(f1, f2). friendUserId f1) (set (mutualJoin db a b))"
proof (rule inj_onI)
  fix p q
  assume p: "p \<in> set (mutualJoin db a b)" and q: "q \<in> set (mutualJoin db a b)"
    and e: "(\<lambda>(f1, f2). friendUserId f1) p = (\<lambda>(f1, f2). friendUserId f1) q"
  obtain f1 f2 where pp: "p = (f1, f2)" by (cases p)
  obtain g1 g2 where qq: "q = (g1, g2)" by (cases q)
  from p pp have P: "f1 \<in> set (friendships db)" "f2 \<in> set (friendships db)"
    "friendUserId f1 = friendUserId f2" "userId f1 = a" "userId f2 = b"
    by (simp_all add: mutualJoin_mem)
  from q qq have Q: "g1 \<in> set (friendships db)" "g2 \<in> set (friendships db)"
    "friendUserId g1 = friendUserId g2" "userId g1 = a" "userId g2 = b"
    by (simp_all add: mutualJoin_mem)
  from e pp qq have E: "friendUserId f1 = friendUserId g1" by simp
  have "pairOf f1 = pairOf g1" using P Q E by (simp add: pairOf_def)
  then have 1: "f1 = g1"
    using onePerPair_inj [OF assms] P(1) Q(1) by (auto dest: inj_onD)
  have "pairOf f2 = pairOf g2" using P Q E by (simp add: pairOf_def)
  then have 2: "f2 = g2"
    using onePerPair_inj [OF assms] P(2) Q(2) by (auto dest: inj_onD)
  from 1 2 pp qq show "p = q" by simp
qed

lemma mutualJoin_image:
  "(\<lambda>(f1, f2). friendUserId f1) ` set (mutualJoin db a b) = set (mutualFriends db a b)"
proof (rule set_eqI)
  fix F
  show "F \<in> (\<lambda>(f1, f2). friendUserId f1) ` set (mutualJoin db a b)
        \<longleftrightarrow> F \<in> set (mutualFriends db a b)"
  proof
    assume "F \<in> (\<lambda>(f1, f2). friendUserId f1) ` set (mutualJoin db a b)"
    then obtain f1 f2 where "(f1, f2) \<in> set (mutualJoin db a b)" "F = friendUserId f1"
      by auto
    then show "F \<in> set (mutualFriends db a b)"
      by (auto simp: set_mutualFriends hasEdge_mem mutualJoin_mem)
  next
    assume "F \<in> set (mutualFriends db a b)"
    then obtain f1 f2 where
      "f1 \<in> set (friendships db)" "userId f1 = a" "friendUserId f1 = F" "status f1 = accepted"
      "f2 \<in> set (friendships db)" "userId f2 = b" "friendUserId f2 = F" "status f2 = accepted"
      by (auto simp: set_mutualFriends hasEdge_mem)
    then have "(f1, f2) \<in> set (mutualJoin db a b)" "friendUserId f1 = F"
      by (simp_all add: mutualJoin_mem)
    then show "F \<in> (\<lambda>(f1, f2). friendUserId f1) ` set (mutualJoin db a b)"
      by force
  qed
qed

lemma mutualJoin_length:
  assumes "onePerPair db"
  shows "length (mutualJoin db a b) = length (mutualFriends db a b)"
proof -
  have "length (mutualJoin db a b) = card (set (mutualJoin db a b))"
    using mutualJoin_distinct [OF assms] by (simp add: distinct_card)
  also have "\<dots> = card ((\<lambda>(f1, f2). friendUserId f1) ` set (mutualJoin db a b))"
    using mutualJoin_inj [OF assms] by (simp add: card_image)
  also have "\<dots> = card (set (mutualFriends db a b))"
    by (simp add: mutualJoin_image)
  also have "\<dots> = length (mutualFriends db a b)"
  proof -
    have "distinct (mutualFriends db a b)" by (simp add: mutualFriends_def)
    then show ?thesis by (rule distinct_card)
  qed
  finally show ?thesis .
qed

lemma mutualFriendCountSubquery_count:
  assumes "onePerPair db"
  shows "mutualFriendCountSubquery db a b =
           (if mutualFriends db a b = [] then [] else [length (mutualFriends db a b)])"
proof -
  have "mutualJoin db a b = [] \<longleftrightarrow> mutualFriends db a b = []"
    using mutualJoin_length [OF assms, of a b] by (metis length_0_conv)
  then show ?thesis
    by (simp add: mutualFriendCountSubquery_join mutualJoin_length [OF assms])
qed

lemma mutual_column:
  assumes "onePerPair db"
  shows "scalarSubquery (mutualFriendCountSubquery db a b) =
           (if mutualFriends db a b = [] then JNull else JNum (length (mutualFriends db a b)))"
  by (simp add: mutualFriendCountSubquery_count [OF assms] scalarSubquery_def)

subsection \<open>The result of \<open>getById\<close>\<close>

text \<open>
  The row of the main query never has the column \<open>totalFriendCount\<close>, so
  the schema rejects it: \<open>getById\<close> returns no profile, and a call whose
  precondition holds ends in the error of the schema.
\<close>

lemma getById_query_no_total:
  "getById_query db uid fid = Inr r \<Longrightarrow> field r ''totalFriendCount'' = JUndefined"
  by (auto simp: getById_query_def executeTakeFirstOrThrow_def field_def split: list.splits)

lemma parseProfile_needs_total:
  "field r ''totalFriendCount'' = JUndefined \<Longrightarrow> parseProfile r = Inl ZodError"
  by (simp add: parseProfile_def CountSchema_def split: option.splits)

lemma getById_never_returns: "getById db uid fid \<noteq> Inr p"
proof (cases "getById_query db uid fid")
  case (Inl e)
  then show ?thesis by (simp add: getById_def)
next
  case (Inr r)
  then show ?thesis
    by (simp add: getById_def parseProfile_needs_total [OF getById_query_no_total [OF Inr]])
qed

lemma getById_query_found:
  assumes "hasEdge db uid fid accepted" and "userExists db fid"
  shows "\<exists>r. getById_query db uid fid = Inr r"
proof -
  let ?rows = "filter (\<lambda>(friends, f). userId f = uid \<and> friendUserId f = fid
                                    \<and> status f = accepted)
             (innerJoin (users db) (friendships db)
                (\<lambda>friends f. friendUserId f = user_id friends))"
  from assms(1) obtain f where f: "f \<in> set (friendships db)" "userId f = uid"
    "friendUserId f = fid" "status f = accepted"
    by (auto simp: hasEdge_mem)
  from assms(2) obtain u where u: "u \<in> set (users db)" "user_id u = fid"
    by (auto simp: userExists_def list_ex_iff)
  from f u have "(u, f) \<in> set ?rows"
    by (simp add: innerJoin_def)
  then have "?rows \<noteq> []"
    by (metis empty_iff empty_set)
  then obtain x xs where "?rows = x # xs"
    by (cases ?rows) auto
  then show ?thesis
    by (simp add: getById_query_def executeTakeFirstOrThrow_def)
qed

lemma getById_friend_ZodError:
  assumes "hasEdge db uid fid accepted" and "userExists db fid"
  shows "getById db uid fid = Inl ZodError"
proof -
  from getById_query_found [OF assms] obtain r where r: "getById_query db uid fid = Inr r"
    by blast
  show ?thesis
    by (simp add: getById_def r parseProfile_needs_total [OF getById_query_no_total [OF r]])
qed

subsection \<open>Accept after send\<close>

text \<open>
  When the pair \<open>(b, a)\<close> has no row, it has none after \<open>a\<close> has sent to
  \<open>b\<close> and \<open>b\<close> has accepted.
\<close>

lemma accept_after_send_no_reciprocal:
  assumes "userExists db b" and "a \<noteq> b" and "rowsOf db b a = []"
  shows "rowsOf (snd (accept (snd (send db a b)) b a)) b a = []"
proof -
  let ?d1 = "snd (send db a b)"
  have "(b, a) \<notin> set (map pairOf (friendships db))"
    using assms(3) by (simp add: rowsOf_empty_pairs)
  then have "(b, a) \<notin> set (map pairOf (friendships ?d1))"
    using assms(2) by (simp add: send_pairs)
  then have "(b, a) \<notin> set (map pairOf (friendships (snd (accept ?d1 b a))))"
    by (simp add: accept_pairs)
  then show ?thesis by (simp add: rowsOf_empty_pairs)
qed

section \<open>Claims\<close>

text \<open>
  C1. The claim on the code, at the store of Ann (1) and Bob (2) without any
  edge: Ann sends to Bob, Bob accepts, both calls succeed. The edge
  \<open>(1, 2)\<close> is accepted, and the pair \<open>(2, 1)\<close> has no row at all.
\<close>

theorem C1_accept_leaves_reciprocal_missing:
  "send twoUsers 1 2
     = (Inr \<lparr>success = True\<rparr>,
        \<lparr>users = [ann, bob], friendships = [edge 1 1 2 requested]\<rparr>)
   \<and> accept (snd (send twoUsers 1 2)) 2 1
     = (Inr (), \<lparr>users = [ann, bob], friendships = [edge 1 1 2 accepted]\<rparr>)
   \<and> hasEdge (snd (accept (snd (send twoUsers 1 2)) 2 1)) 1 2 accepted
   \<and> rowsOf (snd (accept (snd (send twoUsers 1 2)) 2 1)) 2 1 = []
   \<and> \<not> hasEdge (snd (accept (snd (send twoUsers 1 2)) 2 1)) 2 1 accepted"
  by (simp add: send_def canSendFriendshipRequest_def executeTakeFirstOrThrow_def
      send_mutation_def executeTakeFirst_def insertInto_def freshId_def
      accept_def canAnswerFriendshipRequest_def accept_transaction_def
      accept_existingFriendship_def accept_firstUpdate_def updateTable_def
      hasEdge_def rowsOf_def twoUsers_def ann_def bob_def edge_def)

text \<open>
  C2. The claim on the code, at the store of the six users: Ann and Bob are
  accepted friends and Bob has four accepted edges, yet the row of the query
  has no column \<open>totalFriendCount\<close>, and \<open>getById\<close> ends in the error of the
  schema instead of a result.
\<close>

theorem C2_getById_has_no_totalFriendCount:
  "hasEdge mutualStore 1 2 accepted
   \<and> map_of (userTotalFriendCount mutualStore) 2 = Some 4
   \<and> getById_query mutualStore 1 2
       = Inr [(''id'', JNum 2), (''fullName'', JStr ''Bob''),
              (''phoneNumber'', JStr ''555-0102''), (''mutualFriendCount'', JNum 2)]
   \<and> getById mutualStore 1 2 = Inl ZodError"
  by code_simp

text \<open>
  C3. The claim on the code, at the store where Ann and Bob are accepted
  friends without a common friend: the subquery has no row, the column
  \<open>mutualFriendCount\<close> of the query is \<open>null\<close>, the count schema rejects
  \<open>null\<close>, and \<open>getById\<close> ends in the error of the schema instead of a
  result with \<open>mutualFriendCount = 0\<close>.
\<close>

theorem C3_getById_mutual_count_null:
  "hasEdge friendsStore 1 2 accepted
   \<and> mutualFriends friendsStore 1 2 = []
   \<and> mutualFriendCountSubquery friendsStore 1 2 = []
   \<and> getById_query friendsStore 1 2
       = Inr [(''id'', JNum 2), (''fullName'', JStr ''Bob''),
              (''phoneNumber'', JStr ''555-0102''), (''mutualFriendCount'', JNull)]
   \<and> CountSchema JNull = None
   \<and> getById friendsStore 1 2 = Inl ZodError"
  by code_simp

text \<open>
  C4. The claim on the code, at the store of the six users, which has one row
  per ordered pair: the mutual friends of Ann and Bob are Dan and Eve and the
  subquery counts two, but \<open>getById\<close> called by Ann for Bob returns no
  result: it ends in the error of the schema.
\<close>

theorem C4_getById_returns_no_mutual_count:
  "onePerPair mutualStore
   \<and> hasEdge mutualStore 1 2 accepted
   \<and> mutualFriends mutualStore 1 2 = [4, 5]
   \<and> mutualFriendCountSubquery mutualStore 1 2 = [2]
   \<and> getById mutualStore 1 2 = Inl ZodError"
  by code_simp

text \<open>
  C5. In a store with at most one row per ordered pair, when the target user
  exists and the pair \<open>(callerId, targetId)\<close> already has a row, in whatever
  status, \<open>send\<close> succeeds, adds no row, and leaves the pair with exactly one
  row, the one it had, now with status \<open>requested\<close>. In particular
  \<open>send\<close>, then \<open>decline\<close> by the target, then \<open>send\<close> again all succeed,
  the second \<open>send\<close> adds no row, and the pair ends with exactly one row,
  with status \<open>requested\<close>.
\<close>

theorem C5_resend_overwrites:
  assumes "userExists db targetId" and "onePerPair db"
  shows "(rowsOf db callerId targetId \<noteq> [] \<longrightarrow>
            fst (send db callerId targetId) = Inr \<lparr>success = True\<rparr>
          \<and> length (friendships (snd (send db callerId targetId))) = length (friendships db)
          \<and> map rowId (rowsOf (snd (send db callerId targetId)) callerId targetId)
              = map rowId (rowsOf db callerId targetId)
          \<and> map status (rowsOf (snd (send db callerId targetId)) callerId targetId)
              = [requested])
       \<and> (let d1 = snd (send db callerId targetId);
               d2 = snd (decline d1 targetId callerId);
               d3 = snd (send d2 callerId targetId)
           in fst (send db callerId targetId) = Inr \<lparr>success = True\<rparr>
            \<and> fst (decline d1 targetId callerId) = Inr \<lparr>success = True\<rparr>
            \<and> fst (send d2 callerId targetId) = Inr \<lparr>success = True\<rparr>
            \<and> map status (rowsOf d2 callerId targetId) = [declined]
            \<and> map status (rowsOf d3 callerId targetId) = [requested]
            \<and> length (friendships d3) = length (friendships d1)
            \<and> onePerPair d3)"
proof -
  let ?d1 = "snd (send db callerId targetId)"
  let ?d2 = "snd (decline ?d1 targetId callerId)"
  let ?d3 = "snd (send ?d2 callerId targetId)"
  have ok1: "fst (send db callerId targetId) = Inr \<lparr>success = True\<rparr>"
    using assms(1) by (rule send_ok)
  have part1: "rowsOf db callerId targetId \<noteq> [] \<longrightarrow>
            fst (send db callerId targetId) = Inr \<lparr>success = True\<rparr>
          \<and> length (friendships ?d1) = length (friendships db)
          \<and> map rowId (rowsOf ?d1 callerId targetId) = map rowId (rowsOf db callerId targetId)
          \<and> map status (rowsOf ?d1 callerId targetId) = [requested]"
    using assms ok1 by (simp add: send_length send_rows_ids send_existing_one)
  have p1: "hasEdge ?d1 callerId targetId requested"
    using assms(1) by (rule send_requested)
  have i1: "onePerPair ?d1" using assms(2) by (rule send_onePerPair)
  have u1: "userExists ?d1 targetId"
    using assms(1) by (simp add: userExists_users [OF send_users])
  have one1: "length (rowsOf ?d1 callerId targetId) = 1"
    using onePerPair_rowsOf [OF i1, of callerId targetId] hasEdge_rowsOf [OF p1]
    by (cases "rowsOf ?d1 callerId targetId") simp_all
  have ok2: "fst (decline ?d1 targetId callerId) = Inr \<lparr>success = True\<rparr>"
    by (simp add: decline_pending [OF p1])
  have r2: "rowsOf ?d2 callerId targetId
            = map (\<lambda>r. r\<lparr>status := declined\<rparr>) (rowsOf ?d1 callerId targetId)"
    by (simp add: decline_pending [OF p1] rowsOf_update_same)
  have s2: "map status (rowsOf ?d2 callerId targetId) = [declined]"
    using one1 by (simp add: r2 o_def map_replicate_const)
  have ne2: "rowsOf ?d2 callerId targetId \<noteq> []"
    using s2 by auto
  have i2: "onePerPair ?d2" using i1 by (rule decline_onePerPair)
  have u2: "userExists ?d2 targetId"
    using u1 by (simp add: userExists_users [OF decline_users])
  have ok3: "fst (send ?d2 callerId targetId) = Inr \<lparr>success = True\<rparr>"
    using u2 by (rule send_ok)
  have s3: "map status (rowsOf ?d3 callerId targetId) = [requested]"
    using u2 i2 ne2 by (rule send_existing_one)
  have l3: "length (friendships ?d3) = length (friendships ?d1)"
    using u2 ne2 by (simp add: send_length decline_length)
  have i3: "onePerPair ?d3" using i2 by (rule send_onePerPair)
  from part1 ok1 ok2 ok3 s2 s3 l3 i3 show ?thesis
    by (simp only: Let_def simp_thms)
qed

theorem C5_resend_overwrites_witness:
  "userExists declinedStore 2 \<and> onePerPair declinedStore \<and> rowsOf declinedStore 1 2 \<noteq> []
   \<and> fst (send declinedStore 1 2) = Inr \<lparr>success = True\<rparr>
   \<and> length (friendships (snd (send declinedStore 1 2))) = 1
   \<and> map rowId (rowsOf (snd (send declinedStore 1 2)) 1 2) = [1]
   \<and> map status (rowsOf (snd (send declinedStore 1 2)) 1 2) = [requested]
   \<and> userExists twoUsers 2 \<and> onePerPair twoUsers
   \<and> fst (send (snd (decline (snd (send twoUsers 1 2)) 2 1)) 1 2) = Inr \<lparr>success = True\<rparr>
   \<and> map status (rowsOf (snd (send (snd (decline (snd (send twoUsers 1 2)) 2 1)) 1 2)) 1 2)
       = [requested]"
proof -
  have u: "userExists declinedStore 2"
    by (simp add: userExists_def declinedStore_def ann_def bob_def)
  have i: "onePerPair declinedStore"
    by (simp add: onePerPair_def declinedStore_def)
  have r: "rowsOf declinedStore 1 2 = [edge 1 1 2 declined]"
    by (simp add: rowsOf_def declinedStore_def edge_def)
  have l: "length (friendships declinedStore) = 1"
    by (simp add: declinedStore_def)
  have u': "userExists twoUsers 2"
    by (simp add: userExists_def twoUsers_def ann_def bob_def)
  have i': "onePerPair twoUsers"
    by (simp add: onePerPair_def twoUsers_def)
  show ?thesis
    using u i r l u' i'
      C5_resend_overwrites [OF u i, of 1] C5_resend_overwrites [OF u' i', of 1]
    by (simp add: Let_def edge_def)
qed

text \<open>
  C6. From a store in which no ordered pair has two rows, each of \<open>send\<close>,
  \<open>accept\<close> and \<open>decline\<close> leads to a store in which no ordered pair has two
  rows. The table grows only in \<open>send\<close>, by one row, and only when the target
  exists and the pair had no row; \<open>accept\<close> and \<open>decline\<close> keep its length.
\<close>

theorem C6_one_edge_per_pair_preserved:
  assumes "onePerPair db"
  shows "onePerPair (snd (send db callerId targetId))
       \<and> onePerPair (snd (accept db callerId requesterId))
       \<and> onePerPair (snd (decline db callerId requesterId))
       \<and> length (friendships (snd (send db callerId targetId))) =
           length (friendships db)
             + (if userExists db targetId \<and> rowsOf db callerId targetId = [] then 1 else 0)
       \<and> length (friendships (snd (accept db callerId requesterId))) = length (friendships db)
       \<and> length (friendships (snd (decline db callerId requesterId))) = length (friendships db)"
proof -
  have s: "onePerPair (snd (send db callerId targetId))"
    using assms rowsOf_empty_pairs [of db callerId targetId]
    by (simp add: onePerPair_def send_pairs)
  have a: "onePerPair (snd (accept db callerId requesterId))"
    using assms by (simp add: onePerPair_def accept_pairs)
  have d: "onePerPair (snd (decline db callerId requesterId))"
    using assms by (simp add: onePerPair_def decline_pairs)
  from s a d show ?thesis
    by (simp only: send_length accept_length decline_length simp_thms)
qed

theorem C6_one_edge_per_pair_preserved_witness:
  "onePerPair pendingStore
   \<and> onePerPair (snd (send pendingStore 1 2))
   \<and> onePerPair (snd (accept pendingStore 2 1))
   \<and> onePerPair (snd (decline pendingStore 2 1))
   \<and> length (friendships (snd (send pendingStore 1 2))) = 2
   \<and> length (friendships (snd (send pendingStore 2 2))) = 3"
proof -
  have h: "onePerPair pendingStore"
    by (simp add: onePerPair_def pendingStore_def edge_def pairOf_def)
  have u: "userExists pendingStore 2"
    by (simp add: userExists_def pendingStore_def ann_def bob_def)
  have r1: "rowsOf pendingStore 1 2 \<noteq> []"
    by (simp add: rowsOf_def pendingStore_def edge_def)
  have r2: "rowsOf pendingStore 2 2 = []"
    by (simp add: rowsOf_def pendingStore_def edge_def)
  have l: "length (friendships pendingStore) = 2"
    by (simp add: pendingStore_def)
  show ?thesis
    using h u r1 r2 l
      C6_one_edge_per_pair_preserved [OF h, of 1 2 2]
      C6_one_edge_per_pair_preserved [OF h, of 2 2 1]
    by simp
qed

text \<open>
  C7. A call of \<open>send\<close> whose target id belongs to no user fails with the
  bad-request error, and the store that results is the store it started from:
  no row is written.
\<close>

theorem C7_send_unknown_target:
  "\<not> userExists db targetId \<Longrightarrow> send db callerId targetId = (Inl BAD_REQUEST, db)"
  by (simp add: send_def canSend_unknown)

theorem C7_send_unknown_target_witness:
  "\<not> userExists twoUsers 7 \<and> send twoUsers 1 7 = (Inl BAD_REQUEST, twoUsers)"
proof -
  have h: "\<not> userExists twoUsers 7"
    by (simp add: userExists_def twoUsers_def ann_def bob_def)
  show ?thesis using h C7_send_unknown_target [OF h, of 1] by simp
qed

text \<open>
  C8. When the pair \<open>(callerId, friendId)\<close> has no row with status
  \<open>accepted\<close>, \<open>getById\<close> fails with the not-found error, whatever other
  rows the two users have.
\<close>

theorem C8_getById_not_found:
  "\<not> hasEdge db callerId friendId accepted \<Longrightarrow> getById db callerId friendId = Inl NOT_FOUND"
  by (simp add: getById_def getById_query_def getById_query_rows_empty
      executeTakeFirstOrThrow_def)

theorem C8_getById_not_found_witness:
  "\<not> hasEdge pendingStore 1 2 accepted \<and> hasEdge pendingStore 1 2 requested
   \<and> hasEdge pendingStore 2 1 declined
   \<and> getById pendingStore 1 2 = Inl NOT_FOUND \<and> getById pendingStore 2 1 = Inl NOT_FOUND"
proof -
  have h1: "\<not> hasEdge pendingStore 1 2 accepted"
    by (simp add: hasEdge_def rowsOf_def pendingStore_def edge_def)
  have h2: "\<not> hasEdge pendingStore 2 1 accepted"
    by (simp add: hasEdge_def rowsOf_def pendingStore_def edge_def)
  have e: "hasEdge pendingStore 1 2 requested \<and> hasEdge pendingStore 2 1 declined"
    by (simp add: hasEdge_def rowsOf_def pendingStore_def edge_def)
  show ?thesis
    using h1 e C8_getById_not_found [OF h1] C8_getById_not_found [OF h2] by simp
qed

text \<open>
  C9. When the pair \<open>(requesterId, callerId)\<close> has a row with status
  \<open>requested\<close>, \<open>decline\<close> returns the success flag, every row of that pair
  has status \<open>declined\<close> afterwards, and every other row of the table, at
  every position, is the row that was there before; the users are untouched.
  In particular, for two different users, the rows of the reciprocal pair
  \<open>(callerId, requesterId)\<close> are unchanged.
\<close>

theorem C9_decline_frame:
  assumes "hasEdge db requesterId callerId requested"
  shows "fst (decline db callerId requesterId) = Inr \<lparr>success = True\<rparr>
       \<and> users (snd (decline db callerId requesterId)) = users db
       \<and> length (friendships (snd (decline db callerId requesterId))) = length (friendships db)
       \<and> (\<forall>i < length (friendships db).
             friendships (snd (decline db callerId requesterId)) ! i =
               (if userId (friendships db ! i) = requesterId
                   \<and> friendUserId (friendships db ! i) = callerId
                then (friendships db ! i)\<lparr>status := declined\<rparr>
                else friendships db ! i))
       \<and> rowsOf (snd (decline db callerId requesterId)) requesterId callerId
           = map (\<lambda>r. r\<lparr>status := declined\<rparr>) (rowsOf db requesterId callerId)
       \<and> \<not> hasEdge (snd (decline db callerId requesterId)) requesterId callerId requested
       \<and> (callerId \<noteq> requesterId \<longrightarrow>
            rowsOf (snd (decline db callerId requesterId)) callerId requesterId
              = rowsOf db callerId requesterId)"
proof -
  let ?d = "snd (decline db callerId requesterId)"
  have d: "decline db callerId requesterId =
           (Inr \<lparr>success = True\<rparr>,
            db\<lparr>friendships :=
                 updateTable (\<lambda>r. userId r = requesterId \<and> friendUserId r = callerId) declined
                   (friendships db)\<rparr>)"
    using assms by (rule decline_pending)
  have ok: "fst (decline db callerId requesterId) = Inr \<lparr>success = True\<rparr>"
    by (simp add: d)
  have nth: "\<forall>i < length (friendships db).
             friendships ?d ! i =
               (if userId (friendships db ! i) = requesterId
                   \<and> friendUserId (friendships db ! i) = callerId
                then (friendships db ! i)\<lparr>status := declined\<rparr>
                else friendships db ! i)"
    by (simp add: d updateTable_nth)
  have rows: "rowsOf ?d requesterId callerId
              = map (\<lambda>r. r\<lparr>status := declined\<rparr>) (rowsOf db requesterId callerId)"
    by (simp add: d rowsOf_update_same)
  have nopending: "\<not> hasEdge ?d requesterId callerId requested"
    by (simp add: hasEdge_def rows list_ex_iff)
  have recip: "callerId \<noteq> requesterId \<longrightarrow>
            rowsOf ?d callerId requesterId = rowsOf db callerId requesterId"
    by (simp add: d rowsOf_def filter_other_pair_updateTable)
  from ok nth rows nopending recip show ?thesis
    by (simp only: decline_users decline_length simp_thms)
qed

theorem C9_decline_frame_witness:
  "hasEdge pendingStore 1 2 requested
   \<and> decline pendingStore 2 1
       = (Inr \<lparr>success = True\<rparr>,
          \<lparr>users = [ann, bob], friendships = [edge 1 1 2 declined, edge 2 2 1 declined]\<rparr>)
   \<and> rowsOf (snd (decline pendingStore 2 1)) 2 1 = rowsOf pendingStore 2 1"
proof -
  have h: "hasEdge pendingStore 1 2 requested"
    by (simp add: hasEdge_def rowsOf_def pendingStore_def edge_def)
  have e: "decline pendingStore 2 1
       = (Inr \<lparr>success = True\<rparr>,
          \<lparr>users = [ann, bob], friendships = [edge 1 1 2 declined, edge 2 2 1 declined]\<rparr>)"
    unfolding decline_pending [OF h]
    by (simp add: updateTable_def pendingStore_def edge_def)
  have "rowsOf (snd (decline pendingStore 2 1)) 2 1 = rowsOf pendingStore 2 1"
    using C9_decline_frame [OF h] by simp
  with h e show ?thesis by blast
qed

text \<open>
  C10. When the pair \<open>(requesterId, callerId)\<close> has a row as the transaction
  of \<open>accept\<close> starts, the lookup of the transaction finds a row, so the
  insert branch is not taken: the table keeps its length, and every row keeps
  its key, its \<open>userId\<close> and its \<open>friendUserId\<close>; only statuses change. The
  same holds for \<open>accept\<close> with its guard.
\<close>

theorem C10_accept_never_inserts:
  assumes "rowsOf db requesterId callerId \<noteq> []"
  shows "accept_existingFriendship db callerId requesterId \<noteq> None
       \<and> map rowKey (friendships (accept_transaction db callerId requesterId))
           = map rowKey (friendships db)
       \<and> length (friendships (accept_transaction db callerId requesterId))
           = length (friendships db)
       \<and> map rowKey (friendships (snd (accept db callerId requesterId)))
           = map rowKey (friendships db)"
proof -
  have k: "map rowKey (friendships (accept_transaction db callerId requesterId))
           = map rowKey (friendships db)"
    using assms by (rule accept_transaction_keys)
  have l: "length (friendships (accept_transaction db callerId requesterId))
           = length (friendships db)"
    using arg_cong [OF k, of length] by simp
  have f: "accept_existingFriendship db callerId requesterId \<noteq> None"
    using assms by (simp add: accept_existingFriendship_None)
  have a: "map rowKey (friendships (snd (accept db callerId requesterId)))
           = map rowKey (friendships db)"
    by (cases "hasEdge db requesterId callerId requested")
      (simp_all add: accept_def canAnswer_pending canAnswer_none k)
  from f k l a show ?thesis by simp
qed

theorem C10_accept_never_inserts_witness:
  "rowsOf pendingStore 1 2 \<noteq> []
   \<and> accept_existingFriendship pendingStore 2 1 = Some (edge 1 1 2 requested)
   \<and> map rowKey (friendships (accept_transaction pendingStore 2 1)) = [(1, 1, 2), (2, 2, 1)]
   \<and> map rowKey (friendships (snd (accept pendingStore 2 1))) = [(1, 1, 2), (2, 2, 1)]"
proof -
  have h: "rowsOf pendingStore 1 2 \<noteq> []"
    by (simp add: rowsOf_def pendingStore_def edge_def)
  have e: "accept_existingFriendship pendingStore 2 1 = Some (edge 1 1 2 requested)"
    by (simp add: accept_existingFriendship_def accept_firstUpdate_def updateTable_def
        executeTakeFirst_def pendingStore_def edge_def)
  have k: "map rowKey (friendships pendingStore) = [(1, 1, 2), (2, 2, 1)]"
    by (simp add: pendingStore_def edge_def rowKey_def)
  show ?thesis
    using h e k C10_accept_never_inserts [OF h] by simp
qed

end
